theory Spec2Isabelle
  imports Complex_Main "HOL-Library.List_Lexorder" "HOL-Library.Char_ord"
begin

section \<open>Wire values, errors and outcomes\<close>

text \<open>
  A JSON value as \<^verbatim>\<open>encoding/json\<close> hands it to the program: numbers are
  \<^verbatim>\<open>float64\<close> (every finite one is a rational), objects keep their members in
  the order of the text.
\<close>

datatype jvalue =
    JNull
  | JBool bool
  | JNum rat
  | JStr string
  | JArr "jvalue list"
  | JObj "(string \<times> jvalue) list"

text \<open>\<^verbatim>\<open>map[string]any\<close>: the generic envelope the listeners receive.\<close>

type_synonym envelope = "string \<rightharpoonup> jvalue"

text \<open>
  Go errors, as far as the program looks at them: \<^verbatim>\<open>*websocket.CloseError\<close>,
  a \<^verbatim>\<open>net.Error\<close>, any other error, and an error wrapped with a message by
  \<^verbatim>\<open>errors.Wrap\<close>.
\<close>

datatype error =
    CloseError int string
  | NetError string
  | PlainError string
  | Wrapped error string

text \<open>\<^verbatim>\<open>errors.As(err, &closeErr)\<close> and \<^verbatim>\<open>errors.As(err, &netErr)\<close> walk the chain.\<close>

fun As_CloseError :: "error \<Rightarrow> bool" where
  "As_CloseError (CloseError c t) = True"
| "As_CloseError (NetError m) = False"
| "As_CloseError (PlainError m) = False"
| "As_CloseError (Wrapped e m) = As_CloseError e"

fun As_NetError :: "error \<Rightarrow> bool" where
  "As_NetError (CloseError c t) = False"
| "As_NetError (NetError m) = True"
| "As_NetError (PlainError m) = False"
| "As_NetError (Wrapped e m) = As_NetError e"

text \<open>\<^verbatim>\<open>errors.Wrap(err, msg)\<close> is nil on a nil error.\<close>

definition Wrap :: "error option \<Rightarrow> string \<Rightarrow> error option" where
  "Wrap err msg = (case err of None \<Rightarrow> None | Some e \<Rightarrow> Some (Wrapped e msg))"

text \<open>
  A call either returns (\<open>Done\<close>) or does not: the goroutine parks on a channel
  operation that no goroutine is at the other end of (\<open>Blocked\<close>), the process panics
  (\<open>Panic\<close>), or a retry loop has used up everything the environment was scripted to
  answer and is still going round (\<open>Spinning\<close>).
\<close>

datatype stop = Blocked | Panic | Spinning

datatype ('r, 'w) outcome = Done 'r 'w | Stop stop 'w

fun bind_outcome ::
  "('r, 'w) outcome \<Rightarrow> ('r \<Rightarrow> 'w \<Rightarrow> ('q, 'w) outcome) \<Rightarrow> ('q, 'w) outcome" where
  "bind_outcome (Done r w) f = f r w"
| "bind_outcome (Stop s w) f = Stop s w"

section \<open>Transport: \<^verbatim>\<open>connection.Handler\<close>\<close>

text \<open>
  The two listener slices of \<^verbatim>\<open>connection.Handler\<close>. The listeners are closures
  over the rest of the program state \<open>'w\<close> (which holds the socket handle, see
  \<open>world\<close> below); a HOL record cannot hold functions over itself, so the slices
  are kept in a record of their own.
\<close>

record 'w registry =
  onResponse :: "(envelope \<Rightarrow> 'w \<Rightarrow> (unit, 'w) outcome) list"
  onDisconnect :: "(error \<Rightarrow> 'w \<Rightarrow> (unit, 'w) outcome) list"

definition NewRegistry :: "'w registry" where
  "NewRegistry = \<lparr>onResponse = [], onDisconnect = []\<rparr>"

definition AddOnDisconnectListener ::
  "(error \<Rightarrow> 'w \<Rightarrow> (unit, 'w) outcome) \<Rightarrow> 'w registry \<Rightarrow> 'w registry" where
  "AddOnDisconnectListener l h = h\<lparr>onDisconnect := onDisconnect h @ [l]\<rparr>"

definition AddOnRespListener ::
  "(envelope \<Rightarrow> 'w \<Rightarrow> (unit, 'w) outcome) \<Rightarrow> 'w registry \<Rightarrow> 'w registry" where
  "AddOnRespListener l h = h\<lparr>onResponse := onResponse h @ [l]\<rparr>"

text \<open>\<^verbatim>\<open>for _, listener := range ls { listener(x) }\<close>: a listener that does not return
  keeps the later ones from running.\<close>

fun run_listeners ::
  "('a \<Rightarrow> 'w \<Rightarrow> (unit, 'w) outcome) list \<Rightarrow> 'a \<Rightarrow> 'w \<Rightarrow> (unit, 'w) outcome" where
  "run_listeners [] x w = Done () w"
| "run_listeners (l # ls) x w = bind_outcome (l x w) (\<lambda>_. run_listeners ls x)"

text \<open>What one \<^verbatim>\<open>h.conn.ReadJSON(&resp)\<close> gave: the error (if any) and the map.\<close>

type_synonym read_result = "error option \<times> envelope"

datatype 'w listen_result =
    Returns error 'w
  | Reading 'w
  | Halted stop 'w

text \<open>
  One pass through the body of the \<^verbatim>\<open>for\<close> loop of \<^verbatim>\<open>Listen\<close>:
  \<open>Inl\<close> leaves the loop, \<open>Inr\<close> goes round again.
\<close>

definition Listen_body :: "'w registry \<Rightarrow> read_result \<Rightarrow> 'w \<Rightarrow> 'w listen_result + 'w" where
  "Listen_body h r w =
     (case r of (err, resp) \<Rightarrow>
        (case err of
           Some e \<Rightarrow>
             if As_CloseError e \<or> As_NetError e then
               (case run_listeners (onDisconnect h) e w of
                  Done _ w' \<Rightarrow> Inr w'
                | Stop s w' \<Rightarrow> Inl (Halted s w'))
             else Inl (Returns (Wrapped e ''Read JSON from connection'') w)
         | None \<Rightarrow>
             (case run_listeners (onResponse h) resp w of
                Done _ w' \<Rightarrow> Inr w'
              | Stop s w' \<Rightarrow> Inl (Halted s w'))))"

text \<open>
  \<^verbatim>\<open>Listen\<close>, driven by what the successive reads give. \<open>has_conn\<close> tells whether
  \<^verbatim>\<open>h.conn\<close> is non-nil: \<^verbatim>\<open>ReadJSON\<close> on a nil \<^verbatim>\<open>*websocket.Conn\<close> panics.
  \<open>Reading\<close>: every scripted read is consumed and the loop sits in the next one.
\<close>

fun Listen :: "('w \<Rightarrow> bool) \<Rightarrow> 'w registry \<Rightarrow> read_result list \<Rightarrow> 'w \<Rightarrow> 'w listen_result" where
  "Listen has_conn h [] w = (if has_conn w then Reading w else Halted Panic w)"
| "Listen has_conn h (r # rs) w =
     (if \<not> has_conn w then Halted Panic w
      else case Listen_body h r w of
             Inl res \<Rightarrow> res
           | Inr w' \<Rightarrow> Listen has_conn h rs w')"

section \<open>Channels\<close>

text \<open>
  A Go channel, as far as one sender can tell: its capacity, the values buffered, and how
  many goroutines are parked in a receive on it. \<^verbatim>\<open>make(chan T)\<close> has
  capacity 0.
\<close>

record 'a chan =
  chan_cap :: nat
  chan_buf :: "'a list"
  chan_recvq :: nat

definition make_chan :: "nat \<Rightarrow> 'a chan" where
  "make_chan n = \<lparr>chan_cap = n, chan_buf = [], chan_recvq = 0\<rparr>"

datatype 'a send_result = Handed "'a chan" | Buffered "'a chan" | SendBlocks

text \<open>\<^verbatim>\<open>ch <- v\<close>: handed to a parked receiver, else buffered if there is room, else
  the sender parks.\<close>

definition chan_send :: "'a \<Rightarrow> 'a chan \<Rightarrow> 'a send_result" where
  "chan_send v ch =
     (if 0 < chan_recvq ch then Handed (ch\<lparr>chan_recvq := chan_recvq ch - 1\<rparr>)
      else if length (chan_buf ch) < chan_cap ch then Buffered (ch\<lparr>chan_buf := chan_buf ch @ [v]\<rparr>)
      else SendBlocks)"

text \<open>\<^verbatim>\<open><-ch\<close> in a goroutine of its own: takes a buffered value, else parks.\<close>

definition chan_recv :: "'a chan \<Rightarrow> 'a option \<times> 'a chan" where
  "chan_recv ch =
     (case chan_buf ch of
        [] \<Rightarrow> (None, ch\<lparr>chan_recvq := Suc (chan_recvq ch)\<rparr>)
      | v # vs \<Rightarrow> (Some v, ch\<lparr>chan_buf := vs\<rparr>))"

section \<open>Session protocol: package \<^verbatim>\<open>chat\<close>\<close>

subsection \<open>Messages and constants\<close>

record loginReq =
  loginReq_Type :: rat
  loginReq_Nickname :: string

record loginResp =
  loginResp_Type :: rat
  loginResp_Token :: string
  loginResp_Status :: rat


record postMsgResp =
  postMsgResp_Type :: rat
  postMsgResp_Status :: rat

record chatMsgToClient =
  chatMsgToClient_Type :: rat
  chatMsgToClient_Nickname :: string
  chatMsgToClient_Msg :: string
  chatMsgToClient_IsSystem :: bool


record onlineUsers =
  onlineUsers_Type :: rat
  onlineUsers_Status :: rat
  onlineUsers_Users :: "string list"

text \<open>\<^verbatim>\<open>const ( typeLoginReq float64 = iota + 1; ... )\<close>\<close>

definition typeLoginReq :: rat where "typeLoginReq = 0 + 1"
definition typeLoginResp :: rat where "typeLoginResp = 1 + 1"
definition typePostMessageResp :: rat where "typePostMessageResp = 3 + 1"
definition typeChatMessageToClient :: rat where "typeChatMessageToClient = 4 + 1"
definition typeOnlineUsers :: rat where "typeOnlineUsers = 6 + 1"

definition statusOk :: rat where "statusOk = 0 + 1"
definition statusInvalidToken :: rat where "statusInvalidToken = 1 + 1"
definition statusNameAlreadyTaken :: rat where "statusNameAlreadyTaken = 2 + 1"
definition statusNameIsEmpty :: rat where "statusNameIsEmpty = 3 + 1"
definition statusNameIsTooLong :: rat where "statusNameIsTooLong = 4 + 1"
definition statusMessageIsEmpty :: rat where "statusMessageIsEmpty = 5 + 1"
definition statusMessageIsTooLong :: rat where "statusMessageIsTooLong = 6 + 1"

text \<open>The JSON object of each request struct, as \<^verbatim>\<open>WriteJSON\<close> is handed it: one
  member per field, named by its \<^verbatim>\<open>json\<close> tag, in the order of the fields, the strings
  still the Go strings (what the text on the wire makes of them is \<open>wire\<close> below).\<close>

definition json_loginReq :: "loginReq \<Rightarrow> jvalue" where
  "json_loginReq r =
     JObj [(''type'', JNum (loginReq_Type r)), (''nickname'', JStr (loginReq_Nickname r))]"



subsection \<open>The program state\<close>

datatype level = Info | Warn | Error

text \<open>What the program does to the outside, in the order it does it.\<close>

datatype event =
    Log level string
  | Sleep nat
  | Dial
  | WroteJSON jvalue "error option"
  | UIOnlineUsers "string list"
  | UIPrint string string bool
  | TokenReceiverArmed
  | Prompt string

record Config =
  ServerAddress :: string
  TLSMode :: "bool option"
  Nickname :: string

text \<open>\<^verbatim>\<open>ui.Chat\<close>: the two fields the session layer touches. The zero value (no UI
  attached yet) has a nil \<^verbatim>\<open>Gui\<close> and a nil \<^verbatim>\<open>OnlineUsersCh\<close>; \<^verbatim>\<open>NewChat\<close>
  makes both.\<close>

record Chat =
  Gui :: "nat option"
  OnlineUsersCh :: "nat option"

definition zero_Chat :: Chat where
  "zero_Chat = \<lparr>Gui = None, OnlineUsersCh = None\<rparr>"

text \<open>
  Everything the closures of package \<^verbatim>\<open>chat\<close> reach: the fields of
  \<^verbatim>\<open>chat.Handler\<close>, the \<^verbatim>\<open>conn\<close> field of the \<^verbatim>\<open>connection.Handler\<close> it points
  to, the shared \<^verbatim>\<open>Config\<close>; and the environment: what the coming calls of
  \<^verbatim>\<open>Dial\<close> and of \<^verbatim>\<open>ReadString\<close> on standard input will give, and the events
  so far. \<open>'c\<close> is the state of a \<^verbatim>\<open>*websocket.Conn\<close>.
\<close>

record 'c world =
  conn :: "'c option"
  cfg :: Config
  ChatUI :: Chat
  tokenCh :: "string chan"
  token :: string
  dials :: "(error + 'c) list"
  stdin :: "(string \<times> error option) list"
  trace :: "event list"

definition emit :: "event list \<Rightarrow> 'c world \<Rightarrow> 'c world" where
  "emit evs w = w\<lparr>trace := trace w @ evs\<rparr>"

subsection \<open>Transport operations on the state\<close>

text \<open>\<^verbatim>\<open>Connect\<close>: dial until it works, sleeping 5 seconds after each failure. It
  returns once a scripted dial succeeds.\<close>

fun Connect_loop :: "(error + 'c) list \<Rightarrow> 'c world \<Rightarrow> (unit, 'c world) outcome" where
  "Connect_loop [] w = Stop Spinning (w\<lparr>dials := []\<rparr>)"
| "Connect_loop (Inr c # ds) w =
     Done () (emit [Dial, Log Info ''Connected to ''] (w\<lparr>conn := Some c, dials := ds\<rparr>))"
| "Connect_loop (Inl e # ds) w =
     Connect_loop ds (emit [Dial, Log Error ''Connect to server Retrying in 5 seconds.'', Sleep 5] w)"

definition Connect :: "'c world \<Rightarrow> (unit, 'c world) outcome" where
  "Connect w = Connect_loop (dials w) w"

text \<open>
  \<^verbatim>\<open>WriteJSON\<close>: \<^verbatim>\<open>return h.conn.WriteJSON(req)\<close>. \<open>wr\<close> is the library's
  \<^verbatim>\<open>(*websocket.Conn).WriteJSON\<close>: from the connection state and the value, the error it
  returns and the connection state after. On a nil \<^verbatim>\<open>h.conn\<close> the method call
  dereferences nil and panics.
\<close>

definition WriteJSON ::
  "('c \<Rightarrow> jvalue \<Rightarrow> error option \<times> 'c) \<Rightarrow> jvalue \<Rightarrow> 'c world \<Rightarrow> (error option, 'c world) outcome" where
  "WriteJSON wr req w =
     (case conn w of
        None \<Rightarrow> Stop Panic w
      | Some c \<Rightarrow>
          (case wr c req of (err, c') \<Rightarrow>
             Done err (emit [WroteJSON req err] (w\<lparr>conn := Some c'\<rparr>))))"

subsection \<open>Requests\<close>

definition NewHandler ::
  "Config \<Rightarrow> 'c option \<Rightarrow> (error + 'c) list \<Rightarrow> (string \<times> error option) list \<Rightarrow> 'c world" where
  "NewHandler c k ds ins =
     \<lparr>conn = k, cfg = c, ChatUI = zero_Chat, tokenCh = make_chan 0, token = [],
      dials = ds, stdin = ins, trace = []\<rparr>"

definition login ::
  "('c \<Rightarrow> jvalue \<Rightarrow> error option \<times> 'c) \<Rightarrow> 'c world \<Rightarrow> (error option, 'c world) outcome" where
  "login wr w =
     bind_outcome
       (WriteJSON wr
          (json_loginReq \<lparr>loginReq_Type = typeLoginReq, loginReq_Nickname = Nickname (cfg w)\<rparr>) w)
       (\<lambda>err w'. Done (Wrap err ''Send login request'') w')"

definition log_if_error :: "error option \<Rightarrow> string \<Rightarrow> 'c world \<Rightarrow> 'c world" where
  "log_if_error err msg w = (case err of None \<Rightarrow> w | Some e \<Rightarrow> emit [Log Error msg] w)"



subsection \<open>Standard input: package \<^verbatim>\<open>stdin\<close>\<close>

text \<open>
  \<^verbatim>\<open>ask\<close>: prompt, read a line, trim it with \<open>trimf\<close> (\<^verbatim>\<open>strings.TrimSpace\<close>)
  if \<open>trim\<close>, ask again while the callback says so or the read failed. The callback
  may log. The loop returns once a scripted line is accepted.
\<close>

fun ask_loop ::
  "(string \<Rightarrow> string) \<Rightarrow> bool \<Rightarrow> string \<Rightarrow> (string \<Rightarrow> bool \<times> event list) \<Rightarrow>
   (string \<times> error option) list \<Rightarrow> 'c world \<Rightarrow> (string, 'c world) outcome" where
  "ask_loop trimf trim prompt callback [] w = Stop Spinning (w\<lparr>stdin := []\<rparr>)"
| "ask_loop trimf trim prompt callback ((line, err) # rest) w =
     (let input = (if trim then trimf line else line);
          w1 = emit (Prompt prompt # snd (callback input)) w
      in if fst (callback input) then ask_loop trimf trim prompt callback rest w1
         else if err = None then Done input (w1\<lparr>stdin := rest\<rparr>)
         else ask_loop trimf trim prompt callback rest
                (emit [Log Error ''Read from standard input''] w1))"

definition ask ::
  "(string \<Rightarrow> string) \<Rightarrow> bool \<Rightarrow> string \<Rightarrow> (string \<Rightarrow> bool \<times> event list) \<Rightarrow>
   'c world \<Rightarrow> (string, 'c world) outcome" where
  "ask trimf trim prompt callback w = ask_loop trimf trim prompt callback (stdin w) w"

definition nickname_callback :: "string \<Rightarrow> bool \<times> event list" where
  "nickname_callback input =
     (if input = [] then (True, [])
      else if length input > 20 then
        (True, [Log Warn ''Nicknames with length > 20 symbols are not allowed''])
      else (False, []))"

definition AskNickname :: "(string \<Rightarrow> string) \<Rightarrow> 'c world \<Rightarrow> (string, 'c world) outcome" where
  "AskNickname trimf w = ask trimf True ''Enter your nickname: '' nickname_callback w"

subsection \<open>Listeners\<close>

text \<open>\<^verbatim>\<open>lo.IsEmpty\<close>: \<^verbatim>\<open>var zero T; return zero == v\<close>. The zero value of the
  type is passed along.\<close>

definition lo_IsEmpty :: "'a \<Rightarrow> 'a \<Rightarrow> bool" where
  "lo_IsEmpty zero v = (zero = v)"

text \<open>A Go pointer: nil, or the address of a named variable or field.\<close>

datatype ptr = NilPtr | AddrOf string

text \<open>\<^verbatim>\<open>h.ChatUI.OnlineUsersCh <- users\<close>. A send on a nil channel blocks for ever; a
  channel made by \<^verbatim>\<open>NewChat\<close> is drained by the UI's \<^verbatim>\<open>UpdateOnlineBox\<close> loop.\<close>

definition send_OnlineUsers :: "string list \<Rightarrow> 'c world \<Rightarrow> (unit, 'c world) outcome" where
  "send_OnlineUsers users w =
     (case OnlineUsersCh (ChatUI w) of
        None \<Rightarrow> Stop Blocked w
      | Some ch \<Rightarrow> Done () (emit [UIOnlineUsers users] w))"

text \<open>\<^verbatim>\<open>go func() { h.token = <-h.tokenCh }()\<close>\<close>

definition arm_token_receiver :: "'c world \<Rightarrow> 'c world" where
  "arm_token_receiver w =
     (case chan_recv (tokenCh w) of
        (None, ch) \<Rightarrow> emit [TokenReceiverArmed] (w\<lparr>tokenCh := ch\<rparr>)
      | (Some v, ch) \<Rightarrow> emit [TokenReceiverArmed] (w\<lparr>tokenCh := ch, token := v\<rparr>))"

text \<open>\<^verbatim>\<open>h.tokenCh <- tok\<close>, from the receive loop. A parked receiver stores the value
  in \<^verbatim>\<open>h.token\<close>.\<close>

definition send_token :: "string \<Rightarrow> 'c world \<Rightarrow> (unit, 'c world) outcome" where
  "send_token tok w =
     (case chan_send tok (tokenCh w) of
        Handed ch \<Rightarrow> Done () (w\<lparr>tokenCh := ch, token := tok\<rparr>)
      | Buffered ch \<Rightarrow> Done () (w\<lparr>tokenCh := ch\<rparr>)
      | SendBlocks \<Rightarrow> Stop Blocked w)"

text \<open>\<^verbatim>\<open>LoginAndWaitForToken\<close>, up to the point where the caller is parked in
  \<^verbatim>\<open>h.token = <-h.tokenCh\<close>.\<close>

definition LoginAndWaitForToken ::
  "('c \<Rightarrow> jvalue \<Rightarrow> error option \<times> 'c) \<Rightarrow> 'c world \<Rightarrow> (unit, 'c world) outcome" where
  "LoginAndWaitForToken wr w =
     bind_outcome (login wr w)
       (\<lambda>e w1. Done () (arm_token_receiver (log_if_error e ''Send login request'' w1)))"

text \<open>The closure registered by \<^verbatim>\<open>HandleOnDisconnect\<close>.\<close>

definition OnDisconnect_listener ::
  "('c \<Rightarrow> jvalue \<Rightarrow> error option \<times> 'c) \<Rightarrow> error \<Rightarrow> 'c world \<Rightarrow> (unit, 'c world) outcome" where
  "OnDisconnect_listener wr err w =
     bind_outcome
       (let w1 = emit [Log Error ''Lost connection to server Retrying in 5 seconds.''] w
        in if \<not> lo_IsEmpty NilPtr (AddrOf ''h.ChatUI'') then send_OnlineUsers [] w1
           else Done () w1)
       (\<lambda>_ w2. bind_outcome (Connect (emit [Sleep 5] w2))
          (\<lambda>_ w3. bind_outcome (login wr w3)
             (\<lambda>e w4. Done () (arm_token_receiver (log_if_error e ''Send login request'' w4)))))"

text \<open>The closure registered by \<^verbatim>\<open>HandleLoginResponse\<close>. \<open>dec\<close> is
  \<^verbatim>\<open>mapstructure.Decode\<close> into a \<^verbatim>\<open>loginResp\<close>.\<close>

definition LoginResponse_listener ::
  "('c \<Rightarrow> jvalue \<Rightarrow> error option \<times> 'c) \<Rightarrow> (string \<Rightarrow> string) \<Rightarrow> (envelope \<Rightarrow> error + loginResp) \<Rightarrow>
   envelope \<Rightarrow> 'c world \<Rightarrow> (unit, 'c world) outcome" where
  "LoginResponse_listener wr trimf dec resp w =
     (if resp ''type'' \<noteq> Some (JNum typeLoginResp) then Done () w
      else case dec resp of
        Inl e \<Rightarrow> Done () (emit [Log Error ''Decode login status response''] w)
      | Inr r \<Rightarrow>
          if loginResp_Status r = statusOk then
            send_token (loginResp_Token r) (emit [Log Info ''Login successful''] w)
          else if loginResp_Status r = statusNameAlreadyTaken then
            bind_outcome (AskNickname trimf (emit [Log Warn ''Name is already taken''] w))
              (\<lambda>nick w1. bind_outcome (login wr (w1\<lparr>cfg := (cfg w1)\<lparr>Nickname := nick\<rparr>\<rparr>))
                 (\<lambda>e w2. Done () (log_if_error e ''Send login request'' w2)))
          else Done () (emit [Log Error ''Login failed, status: ''] w))"

text \<open>The closure registered by \<^verbatim>\<open>HandleOnlineUsers\<close>. \<open>dec\<close> is
  \<^verbatim>\<open>mapstructure.Decode\<close> into an \<^verbatim>\<open>onlineUsers\<close>.\<close>

definition OnlineUsers_listener ::
  "(envelope \<Rightarrow> error + onlineUsers) \<Rightarrow> envelope \<Rightarrow> 'c world \<Rightarrow> (unit, 'c world) outcome" where
  "OnlineUsers_listener dec resp w =
     (if resp ''type'' \<noteq> Some (JNum typeOnlineUsers) then Done () w
      else case dec resp of
        Inl e \<Rightarrow> Done () (emit [Log Error ''Decode online users response''] w)
      | Inr r \<Rightarrow>
          if onlineUsers_Status r = statusOk then send_OnlineUsers (onlineUsers_Users r) w
          else Done () (emit [Log Error ''Get online users failed, status: ''] w))"

text \<open>\<^verbatim>\<open>PrintToChatBox\<close>, seen from the session layer: on a nil \<^verbatim>\<open>Gui\<close> the view
  lookup dereferences nil; otherwise \<open>pr\<close> tells whether the UI reports an error.\<close>

definition PrintToChatBox ::
  "(nat \<Rightarrow> error option) \<Rightarrow> string \<Rightarrow> string \<Rightarrow> bool \<Rightarrow> 'c world \<Rightarrow> (error option, 'c world) outcome" where
  "PrintToChatBox pr nickname msg isSystem w =
     (case Gui (ChatUI w) of
        None \<Rightarrow> Stop Panic w
      | Some g \<Rightarrow>
          (case pr g of
             Some e \<Rightarrow> Done (Some e) w
           | None \<Rightarrow> Done None (emit [UIPrint nickname msg isSystem] w)))"

text \<open>The closure registered by \<^verbatim>\<open>HandleChatMsgToClient\<close>.\<close>

definition ChatMsgToClient_listener ::
  "(nat \<Rightarrow> error option) \<Rightarrow> (envelope \<Rightarrow> error + chatMsgToClient) \<Rightarrow>
   envelope \<Rightarrow> 'c world \<Rightarrow> (unit, 'c world) outcome" where
  "ChatMsgToClient_listener pr dec resp w =
     (if resp ''type'' \<noteq> Some (JNum typeChatMessageToClient) then Done () w
      else case dec resp of
        Inl e \<Rightarrow> Done () (emit [Log Error ''Decode chat message to client''] w)
      | Inr r \<Rightarrow>
          bind_outcome
            (PrintToChatBox pr (chatMsgToClient_Nickname r) (chatMsgToClient_Msg r)
               (chatMsgToClient_IsSystem r) w)
            (\<lambda>e w1. Done () (log_if_error e ''Print message to chat box'' w1)))"

text \<open>The closure registered by \<^verbatim>\<open>HandlePostMessageResponse\<close>.\<close>

definition PostMessageResponse_listener ::
  "(envelope \<Rightarrow> error + postMsgResp) \<Rightarrow> envelope \<Rightarrow> 'c world \<Rightarrow> (unit, 'c world) outcome" where
  "PostMessageResponse_listener dec resp w =
     (if resp ''type'' \<noteq> Some (JNum typePostMessageResp) then Done () w
      else case dec resp of
        Inl e \<Rightarrow> Done () (emit [Log Error ''Decode post message status response''] w)
      | Inr r \<Rightarrow>
          if postMsgResp_Status r \<noteq> statusOk then
            Done () (emit [Log Error ''Post message failed, status: ''] w)
          else Done () w)"

section \<open>Startup wiring: \<^verbatim>\<open>main\<close>\<close>

text \<open>The statements of \<^verbatim>\<open>main\<close> from the creation of the transport on, in program
  order.\<close>

datatype main_step =
    St_NewConnHandler
  | St_Connect
  | St_DeferCloseConn
  | St_AskNicknameIfEmpty
  | St_GoListen
  | St_NewChatHandler
  | St_HandleOnDisconnect
  | St_HandleLoginResponse
  | St_LoginAndWaitForToken
  | St_NewChat
  | St_SetChatUI
  | St_GoDraw
  | St_GoUpdateOnlineBox
  | St_WaitForView
  | St_LogSetOutput
  | St_LogAddHook
  | St_AddOnMsgSendListener
  | St_AddOnOnlineBoxOpenListener
  | St_HandleChatMsgToClient
  | St_HandlePostMessageResponse
  | St_HandleOnlineUsers
  | St_ConfigWrite

definition main_steps :: "main_step list" where
  "main_steps =
     [St_NewConnHandler, St_Connect, St_DeferCloseConn, St_AskNicknameIfEmpty,
      St_GoListen, St_NewChatHandler, St_HandleOnDisconnect, St_HandleLoginResponse,
      St_LoginAndWaitForToken, St_NewChat, St_SetChatUI, St_GoDraw, St_GoUpdateOnlineBox,
      St_WaitForView, St_LogSetOutput, St_LogAddHook, St_AddOnMsgSendListener,
      St_AddOnOnlineBoxOpenListener, St_HandleChatMsgToClient, St_HandlePostMessageResponse,
      St_HandleOnlineUsers, St_ConfigWrite]"

text \<open>The library functions the listeners are closed over.\<close>

record 'c deps =
  dep_wr :: "'c \<Rightarrow> jvalue \<Rightarrow> error option \<times> 'c"
  dep_trim :: "string \<Rightarrow> string"
  dep_pr :: "nat \<Rightarrow> error option"
  dep_loginResp :: "envelope \<Rightarrow> error + loginResp"
  dep_chatMsg :: "envelope \<Rightarrow> error + chatMsgToClient"
  dep_postMsgResp :: "envelope \<Rightarrow> error + postMsgResp"
  dep_onlineUsers :: "envelope \<Rightarrow> error + onlineUsers"

text \<open>What each statement does to the listener slices of the transport.\<close>

fun wire_step :: "'c deps \<Rightarrow> main_step \<Rightarrow> 'c world registry \<Rightarrow> 'c world registry" where
  "wire_step d St_HandleOnDisconnect h = AddOnDisconnectListener (OnDisconnect_listener (dep_wr d)) h"
| "wire_step d St_HandleLoginResponse h =
     AddOnRespListener (LoginResponse_listener (dep_wr d) (dep_trim d) (dep_loginResp d)) h"
| "wire_step d St_HandleChatMsgToClient h =
     AddOnRespListener (ChatMsgToClient_listener (dep_pr d) (dep_chatMsg d)) h"
| "wire_step d St_HandlePostMessageResponse h =
     AddOnRespListener (PostMessageResponse_listener (dep_postMsgResp d)) h"
| "wire_step d St_HandleOnlineUsers h = AddOnRespListener (OnlineUsers_listener (dep_onlineUsers d)) h"
| "wire_step d s h = h"

definition registry_size :: "'w registry \<Rightarrow> nat" where
  "registry_size h = length (onResponse h) + length (onDisconnect h)"

text \<open>The steps that append to a listener slice.\<close>

fun registers :: "main_step \<Rightarrow> bool" where
  "registers St_HandleOnDisconnect = True"
| "registers St_HandleLoginResponse = True"
| "registers St_HandleChatMsgToClient = True"
| "registers St_HandlePostMessageResponse = True"
| "registers St_HandleOnlineUsers = True"
| "registers s = False"

text \<open>The steps before the receive loop is launched, and those after.\<close>

definition before_listen :: "main_step list \<Rightarrow> main_step list" where
  "before_listen steps = takeWhile (\<lambda>s. s \<noteq> St_GoListen) steps"

definition after_listen :: "main_step list \<Rightarrow> main_step list" where
  "after_listen steps = drop 1 (dropWhile (\<lambda>s. s \<noteq> St_GoListen) steps)"

text \<open>Every registration is done before the receive loop is launched.\<close>

definition registered_before_listen :: "main_step list \<Rightarrow> bool" where
  "registered_before_listen steps = list_all (\<lambda>s. \<not> registers s) (after_listen steps)"

section \<open>Encoding and decoding envelopes\<close>

text \<open>
  \<^verbatim>\<open>ReadJSON\<close> into a \<^verbatim>\<open>map[string]any\<close>: an object gives the map of its
  members, a later member replacing an earlier one of the same name; \<^verbatim>\<open>null\<close> leaves
  the nil map; any other value is an unmarshal error.
\<close>

definition decode_envelope :: "jvalue \<Rightarrow> error + envelope" where
  "decode_envelope v =
     (case v of
        JObj kvs \<Rightarrow> Inr (map_of (rev kvs))
      | JNull \<Rightarrow> Inr Map.empty
      | _ \<Rightarrow> Inl (PlainError ''json: cannot unmarshal into Go value of type map[string]interface {}''))"

text \<open>
  Encoding a \<^verbatim>\<open>map[string]any\<close>, as \<^verbatim>\<open>encoding/json\<close> does when an envelope is
  handed to \<^verbatim>\<open>WriteJSON\<close>: one member for each key, the keys sorted. The keys of the
  Go map are given as a list \<open>ks\<close>; a name that is not a key gives no member.
\<close>

definition marshal_envelope :: "string list \<Rightarrow> envelope \<Rightarrow> jvalue" where
  "marshal_envelope ks m =
     JObj (List.map_filter (\<lambda>k. map_option (Pair k) (m k)) (sort (remdups ks)))"

subsection \<open>Strings on the wire\<close>

text \<open>
  The frames are written and read by \<^verbatim>\<open>encoding/json\<close> (behind \<^verbatim>\<open>WriteJSON\<close> and
  \<^verbatim>\<open>ReadJSON\<close>), which is not part of the repository. A Go string is any sequence of
  bytes; the encoder walks it rune by rune and writes U+FFFD for every byte that does not
  start a valid UTF-8 sequence. \<open>rune_len\<close> is the length of the valid sequence at the
  head of a string (0 if there is none), by the table of \<^verbatim>\<open>unicode/utf8\<close>: the lead
  byte gives the width, the second byte has a range of its own after E0, ED, F0 and F4.
\<close>

definition byte_in :: "nat \<Rightarrow> nat \<Rightarrow> char \<Rightarrow> bool" where
  "byte_in lo hi b = (lo \<le> (of_char b :: nat) \<and> (of_char b :: nat) \<le> hi)"

definition rune_width :: "char \<Rightarrow> nat" where
  "rune_width b0 =
     (if byte_in 0x00 0x7F b0 then 1
      else if byte_in 0xC2 0xDF b0 then 2
      else if byte_in 0xE0 0xEF b0 then 3
      else if byte_in 0xF0 0xF4 b0 then 4
      else 0)"

definition second_ok :: "char \<Rightarrow> char \<Rightarrow> bool" where
  "second_ok b0 b1 =
     (if b0 = CHR 0xE0 then byte_in 0xA0 0xBF b1
      else if b0 = CHR 0xED then byte_in 0x80 0x9F b1
      else if b0 = CHR 0xF0 then byte_in 0x90 0xBF b1
      else if b0 = CHR 0xF4 then byte_in 0x80 0x8F b1
      else byte_in 0x80 0xBF b1)"

definition tail_ok :: "char \<Rightarrow> string \<Rightarrow> bool" where
  "tail_ok b0 bs =
     (case bs of [] \<Rightarrow> True | b1 # rest \<Rightarrow> second_ok b0 b1 \<and> list_all (byte_in 0x80 0xBF) rest)"

fun rune_len :: "string \<Rightarrow> nat" where
  "rune_len [] = 0"
| "rune_len (b0 # bs) =
     (if rune_width b0 = 0 \<or> length bs < rune_width b0 - 1 then 0
      else if tail_ok b0 (take (rune_width b0 - 1) bs) then rune_width b0
      else 0)"

text \<open>\<^verbatim>\<open>utf8.ValidString\<close>\<close>

fun valid_utf8 :: "string \<Rightarrow> bool" where
  "valid_utf8 [] = True"
| "valid_utf8 (b # bs) =
     (if rune_len (b # bs) = 0 then False else valid_utf8 (drop (rune_len (b # bs)) (b # bs)))"

text \<open>The string that comes back when a string is written and read: every byte that is
  not part of a valid sequence has become the three bytes of U+FFFD.\<close>

fun utf8_coerce :: "string \<Rightarrow> string" where
  "utf8_coerce [] = []"
| "utf8_coerce (b # bs) =
     (if rune_len (b # bs) = 0 then [CHR 0xEF, CHR 0xBF, CHR 0xBD] @ utf8_coerce bs
      else take (rune_len (b # bs)) (b # bs) @ utf8_coerce (drop (rune_len (b # bs)) (b # bs)))"

text \<open>The value that comes back when a value is written and read: its strings and member
  names coerced, the rest as it was.\<close>

primrec wire :: "jvalue \<Rightarrow> jvalue" where
  "wire JNull = JNull"
| "wire (JBool b) = JBool b"
| "wire (JNum n) = JNum n"
| "wire (JStr s) = JStr (utf8_coerce s)"
| "wire (JArr vs) = JArr (map wire vs)"
| "wire (JObj kvs) = JObj (map (map_prod utf8_coerce wire) kvs)"

section \<open>Observations on outcomes and traces\<close>

fun state_of :: "('r, 'w) outcome \<Rightarrow> 'w" where
  "state_of (Done r w) = w"
| "state_of (Stop s w) = w"

fun returned :: "('r, 'w) outcome \<Rightarrow> bool" where
  "returned (Done r w) = True"
| "returned (Stop s w) = False"

text \<open>The values handed to \<^verbatim>\<open>WriteJSON\<close> in a trace, in order.\<close>

fun written :: "event list \<Rightarrow> jvalue list" where
  "written [] = []"
| "written (WroteJSON v e # evs) = v # written evs"
| "written (ev # evs) = written evs"

text \<open>The lists delivered to the UI's online-users channel in a trace, in order.\<close>

fun ui_lists :: "event list \<Rightarrow> string list list" where
  "ui_lists [] = []"
| "ui_lists (UIOnlineUsers us # evs) = us # ui_lists evs"
| "ui_lists (ev # evs) = ui_lists evs"

text \<open>A listener that returns: it changes the state by \<open>f\<close>.\<close>

definition returning :: "('a \<Rightarrow> 'w \<Rightarrow> 'w) \<Rightarrow> 'a \<Rightarrow> 'w \<Rightarrow> (unit, 'w) outcome" where
  "returning f x w = Done () (f x w)"

text \<open>A listener that notes its own name and what it was called with.\<close>

definition noting :: "nat \<Rightarrow> 'a \<Rightarrow> (nat \<times> 'a) list \<Rightarrow> (nat \<times> 'a) list" where
  "noting i x calls = calls @ [(i, x)]"

text \<open>A listener that notes only its own name.\<close>

definition tagging :: "nat \<Rightarrow> 'a \<Rightarrow> nat list \<Rightarrow> nat list" where
  "tagging i x calls = calls @ [i]"

definition sample_registry :: "nat list registry" where
  "sample_registry =
     \<lparr>onResponse = map returning [tagging 7, tagging 8],
      onDisconnect = map returning [tagging 1, tagging 2]\<rparr>"

subsection \<open>Sample environments\<close>

text \<open>A connection whose writes succeed (its state counts the frames written), and one
  that is closed.\<close>

definition wr_ok :: "nat \<Rightarrow> jvalue \<Rightarrow> error option \<times> nat" where
  "wr_ok c v = (None, Suc c)"


text \<open>Decoders for envelopes whose members, where present, have the type of the field:
  a missing member leaves the zero value, a member of another type is an error.\<close>

definition num_field :: "envelope \<Rightarrow> string \<Rightarrow> error + rat" where
  "num_field m k =
     (case m k of None \<Rightarrow> Inr 0 | Some JNull \<Rightarrow> Inr 0 | Some (JNum n) \<Rightarrow> Inr n
      | Some _ \<Rightarrow> Inl (PlainError ''expected type float64''))"

definition str_field :: "envelope \<Rightarrow> string \<Rightarrow> error + string" where
  "str_field m k =
     (case m k of None \<Rightarrow> Inr [] | Some JNull \<Rightarrow> Inr [] | Some (JStr s) \<Rightarrow> Inr s
      | Some _ \<Rightarrow> Inl (PlainError ''expected type string''))"

fun str_elems :: "jvalue list \<Rightarrow> error + string list" where
  "str_elems [] = Inr []"
| "str_elems (JStr s # vs) = (case str_elems vs of Inl e \<Rightarrow> Inl e | Inr ss \<Rightarrow> Inr (s # ss))"
| "str_elems (v # vs) = Inl (PlainError ''expected type string'')"

definition strs_field :: "envelope \<Rightarrow> string \<Rightarrow> error + string list" where
  "strs_field m k =
     (case m k of None \<Rightarrow> Inr [] | Some JNull \<Rightarrow> Inr [] | Some (JArr vs) \<Rightarrow> str_elems vs
      | Some _ \<Rightarrow> Inl (PlainError ''expected a slice''))"

definition sample_loginResp :: "envelope \<Rightarrow> error + loginResp" where
  "sample_loginResp m =
     (case num_field m ''type'' of Inl e \<Rightarrow> Inl e | Inr t \<Rightarrow>
      case str_field m ''token'' of Inl e \<Rightarrow> Inl e | Inr k \<Rightarrow>
      case num_field m ''status'' of Inl e \<Rightarrow> Inl e | Inr s \<Rightarrow>
        Inr \<lparr>loginResp_Type = t, loginResp_Token = k, loginResp_Status = s\<rparr>)"

definition sample_onlineUsers :: "envelope \<Rightarrow> error + onlineUsers" where
  "sample_onlineUsers m =
     (case num_field m ''type'' of Inl e \<Rightarrow> Inl e | Inr t \<Rightarrow>
      case num_field m ''status'' of Inl e \<Rightarrow> Inl e | Inr s \<Rightarrow>
      case strs_field m ''users'' of Inl e \<Rightarrow> Inl e | Inr us \<Rightarrow>
        Inr \<lparr>onlineUsers_Type = t, onlineUsers_Status = s, onlineUsers_Users = us\<rparr>)"

text \<open>A session that has connected (connection state 0) and has a UI attached, with
  nickname \<open>bob\<close> and token \<open>t0\<close>; and the same before the UI is attached.\<close>

definition sample_cfg :: Config where
  "sample_cfg = \<lparr>ServerAddress = ''localhost:8080'', TLSMode = Some False, Nickname = ''bob''\<rparr>"

definition sample_bare :: "nat world" where
  "sample_bare = NewHandler sample_cfg (Some 0) [Inr 1] [(''bob'', None)]"

definition sample_ui :: "nat world" where
  "sample_ui = sample_bare\<lparr>ChatUI := \<lparr>Gui = Some 0, OnlineUsersCh = Some 0\<rparr>, token := ''t0''\<rparr>"

section \<open>The receive loop\<close>

lemma run_listeners_returning:
  "run_listeners (map returning fs) x w = Done () (fold (\<lambda>f. f x) fs w)"
  by (induction fs arbitrary: w) (simp_all add: returning_def)

lemma onResponse_fold_Add:
  "onResponse (fold AddOnRespListener ls h) = onResponse h @ ls"
  by (induction ls arbitrary: h) (simp_all add: AddOnRespListener_def)

lemma run_listeners_noting:
  "run_listeners (map (\<lambda>i. returning (noting i)) ids) x calls
     = Done () (calls @ map (\<lambda>i. (i, x)) ids)"
  by (induction ids arbitrary: calls) (simp_all add: returning_def noting_def)

text \<open>
  C1. One iteration of \<^verbatim>\<open>Listen\<close>, on a live handle and with listeners that return.
  A read error that is a close error or a network error (anywhere in its chain): every
  disconnect listener is called with that error, in order, and the loop goes on with the
  next read. Any other read error: the loop returns it, wrapped, and reads no more. No
  error: every response listener is called with the decoded envelope, in order, and the
  loop goes on.
\<close>

theorem Listen_iteration:
  assumes "has_conn w"
    and "onDisconnect h = map returning ds"
    and "onResponse h = map returning ls"
  shows "((As_CloseError e \<or> As_NetError e) \<longrightarrow>
           Listen has_conn h ((Some e, resp) # rs) w
             = Listen has_conn h rs (fold (\<lambda>l. l e) ds w))
       \<and> (\<not> (As_CloseError e \<or> As_NetError e) \<longrightarrow>
           Listen has_conn h ((Some e, resp) # rs) w
             = Returns (Wrapped e ''Read JSON from connection'') w)
       \<and> Listen has_conn h ((None, resp) # rs) w
             = Listen has_conn h rs (fold (\<lambda>l. l resp) ls w)"
  using assms by (simp add: Listen_body_def run_listeners_returning)

theorem Listen_iteration_witness:
  "Listen (\<lambda>_. True) sample_registry [(Some (Wrapped (NetError ''reset'') ''read''), Map.empty)] []
     = Reading [1, 2]
   \<and> Listen (\<lambda>_. True) sample_registry [(Some (PlainError ''bad frame''), Map.empty), (None, Map.empty)] []
     = Returns (Wrapped (PlainError ''bad frame'') ''Read JSON from connection'') []
   \<and> Listen (\<lambda>_. True) sample_registry [(None, Map.empty)] [] = Reading [7, 8]"
  using Listen_iteration [of "\<lambda>_. True" "[]" sample_registry "[tagging 1, tagging 2]"
      "[tagging 7, tagging 8]" "Wrapped (NetError ''reset'') ''read''" Map.empty "[]"]
    Listen_iteration [of "\<lambda>_. True" "[]" sample_registry "[tagging 1, tagging 2]"
      "[tagging 7, tagging 8]" "PlainError ''bad frame''" Map.empty "[(None, Map.empty)]"]
  by (simp add: sample_registry_def tagging_def)

text \<open>
  C2. Register any sequence of response listeners, the \<open>i\<close>-th noting its name and its
  argument in a call log, then receive one envelope: the log grows by exactly one call
  per listener, each with that envelope, in the order of registration.
\<close>

theorem dispatch_in_registration_order:
  "Listen (\<lambda>_. True) (fold AddOnRespListener (map (\<lambda>i. returning (noting i)) ids) NewRegistry)
      [(None, resp)] calls
   = Reading (calls @ map (\<lambda>i. (i, resp)) ids)"
  by (simp add: Listen_body_def onResponse_fold_Add NewRegistry_def run_listeners_noting)

section \<open>What the session operations keep\<close>

lemma written_append: "written (xs @ ys) = written xs @ written ys"
  by (induction xs rule: written.induct) simp_all

lemma emit_emit: "emit b (emit a w) = emit (a @ b) w"
  by (simp add: emit_def)


lemma Connect_loop_script:
  "Connect_loop (map Inl es @ Inr c # ds) w
     = Done () (emit (concat (map (\<lambda>e. [Dial, Log Error ''Connect to server Retrying in 5 seconds.'', Sleep 5]) es)
                      @ [Dial, Log Info ''Connected to ''])
                 (w\<lparr>conn := Some c, dials := ds\<rparr>))"
proof (induction es arbitrary: w)
  case Nil
  show ?case by simp
next
  case (Cons e es)
  show ?case
    by (simp add: Cons.IH) (simp add: emit_def)
qed


lemma WriteJSON_conn:
  "conn w = Some c \<Longrightarrow>
     WriteJSON wr req w
       = Done (fst (wr c req)) (emit [WroteJSON req (fst (wr c req))] (w\<lparr>conn := Some (snd (wr c req))\<rparr>))"
  by (simp add: WriteJSON_def split: prod.splits)


lemma log_if_error_keeps [simp]:
  "conn (log_if_error e m w) = conn w" "token (log_if_error e m w) = token w"
  "tokenCh (log_if_error e m w) = tokenCh w" "cfg (log_if_error e m w) = cfg w"
  "ChatUI (log_if_error e m w) = ChatUI w"
  "written (trace (log_if_error e m w)) = written (trace w)"
  by (simp_all add: log_if_error_def emit_def written_append split: option.splits)



lemma LoginResponse_ok:
  "resp ''type'' = Some (JNum typeLoginResp) \<Longrightarrow> dec resp = Inr r \<Longrightarrow>
   loginResp_Status r = statusOk \<Longrightarrow>
   LoginResponse_listener wr trimf dec resp w
     = send_token (loginResp_Token r) (emit [Log Info ''Login successful''] w)"
  by (simp add: LoginResponse_listener_def)



section \<open>The disconnect listener\<close>



text \<open>With a UI attached and a dial that succeeds in the end, the listener returns, and
  what it did is, in this order: the empty list to the UI, the sleep of 5 seconds, the
  dials, the login request, the token receiver.\<close>

lemma OnDisconnect_with_UI_order:
  assumes "OnlineUsersCh (ChatUI w) = Some ch"
    and "dials w = map Inl es @ Inr c # ds"
    and "chan_buf (tokenCh w) = []"
  shows "returned (OnDisconnect_listener wr err w)
    \<and> trace (state_of (OnDisconnect_listener wr err w))
       = trace w
         @ [Log Error ''Lost connection to server Retrying in 5 seconds.'', UIOnlineUsers [], Sleep 5]
         @ concat (map (\<lambda>e. [Dial, Log Error ''Connect to server Retrying in 5 seconds.'', Sleep 5]) es)
         @ [Dial, Log Info ''Connected to '',
            WroteJSON (json_loginReq \<lparr>loginReq_Type = typeLoginReq, loginReq_Nickname = Nickname (cfg w)\<rparr>)
              (fst (wr c (json_loginReq \<lparr>loginReq_Type = typeLoginReq, loginReq_Nickname = Nickname (cfg w)\<rparr>)))]
         @ (case fst (wr c (json_loginReq \<lparr>loginReq_Type = typeLoginReq, loginReq_Nickname = Nickname (cfg w)\<rparr>))
              of None \<Rightarrow> [] | Some e \<Rightarrow> [Log Error ''Send login request''])
         @ [TokenReceiverArmed]"
  using assms
  by (simp add: OnDisconnect_listener_def lo_IsEmpty_def send_OnlineUsers_def Connect_def
      emit_def Connect_loop_script login_def WriteJSON_def log_if_error_def Wrap_def
      arm_token_receiver_def chan_recv_def split: prod.splits option.splits)

text \<open>
  C3. A disconnect before a UI is attached (\<^verbatim>\<open>ChatUI\<close> is still the zero value that
  \<^verbatim>\<open>NewHandler\<close> leaves): the guard \<^verbatim>\<open>!lo.IsEmpty(&h.ChatUI)\<close> compares the address
  of the field with nil and holds, the send on the nil channel parks the receive loop, and
  the listener neither sleeps, nor connects, nor logs in.
\<close>

theorem OnDisconnect_without_UI_blocks:
  "OnDisconnect_listener wr err (NewHandler c k ds ins)
     = Stop Blocked (emit [Log Error ''Lost connection to server Retrying in 5 seconds.''] (NewHandler c k ds ins))"
  by (simp add: OnDisconnect_listener_def lo_IsEmpty_def send_OnlineUsers_def NewHandler_def
      zero_Chat_def emit_def)



section \<open>The login-response listener\<close>

lemma written_nickname_callback [simp]: "written (snd (nickname_callback i)) = []"
  by (simp add: nickname_callback_def)

lemma ask_nickname_loop_Done:
  "ask_loop trimf trim prompt nickname_callback ins w = Done nick w' \<Longrightarrow>
     nick \<noteq> [] \<and> length nick \<le> 20 \<and> conn w' = conn w \<and> token w' = token w
     \<and> tokenCh w' = tokenCh w \<and> cfg w' = cfg w \<and> ChatUI w' = ChatUI w
     \<and> written (trace w') = written (trace w)"
proof (induction ins arbitrary: w)
  case Nil
  then show ?case by simp
next
  case (Cons a ins)
  obtain line err where a: "a = (line, err)" by (cases a)
  let ?input = "if trim then trimf line else line"
  let ?w1 = "emit (Prompt prompt # snd (nickname_callback ?input)) w"
  have k1: "conn ?w1 = conn w" "token ?w1 = token w" "tokenCh ?w1 = tokenCh w" "cfg ?w1 = cfg w"
    "ChatUI ?w1 = ChatUI w" "written (trace ?w1) = written (trace w)"
    by (simp_all add: emit_def written_append)
  show ?case
  proof (cases "fst (nickname_callback ?input)")
    case True
    with Cons.prems have "ask_loop trimf trim prompt nickname_callback ins ?w1 = Done nick w'"
      by (simp add: a Let_def)
    from Cons.IH [OF this] k1 show ?thesis by simp
  next
    case False
    note nc = this
    show ?thesis
    proof (cases err)
      case None
      with nc Cons.prems have e: "?input = nick" "?w1\<lparr>stdin := ins\<rparr> = w'"
        by (auto simp: a Let_def)
      from nc have "?input \<noteq> [] \<and> length ?input \<le> 20"
        by (auto simp: nickname_callback_def split: if_splits)
      with k1 e(1) show ?thesis
        unfolding e(2) [symmetric] by simp
    next
      case (Some e)
      with nc Cons.prems have
        "ask_loop trimf trim prompt nickname_callback ins (emit [Log Error ''Read from standard input''] ?w1) = Done nick w'"
        by (simp add: a Let_def)
      from Cons.IH [OF this] k1 show ?thesis
        by (simp add: emit_def written_append)
    qed
  qed
qed

lemma status_consts [simp]:
  "statusOk \<noteq> statusNameAlreadyTaken" "statusNameAlreadyTaken \<noteq> statusOk"
  by (simp_all add: statusOk_def statusNameAlreadyTaken_def)

text \<open>
  C4. A login response with status name-taken, on a live handle, once the prompt has
  returned a nickname: the listener returns, it has written exactly one request, a login
  request carrying the nickname the prompt returned, which is now the configured one. The
  prompt returns a trimmed line that is not empty and at most 20 bytes long; nothing
  compares it with the nickname that was rejected.
\<close>

theorem name_taken_one_login_request:
  assumes "resp ''type'' = Some (JNum typeLoginResp)" and "dec resp = Inr r"
    and "loginResp_Status r = statusNameAlreadyTaken"
    and "AskNickname trimf (emit [Log Warn ''Name is already taken''] w) = Done nick w1"
    and "conn w \<noteq> None"
  shows "returned (LoginResponse_listener wr trimf dec resp w)
     \<and> written (trace (state_of (LoginResponse_listener wr trimf dec resp w)))
         = written (trace w) @ [json_loginReq \<lparr>loginReq_Type = typeLoginReq, loginReq_Nickname = nick\<rparr>]
     \<and> Nickname (cfg (state_of (LoginResponse_listener wr trimf dec resp w))) = nick
     \<and> nick \<noteq> [] \<and> length nick \<le> 20"
proof -
  from assms(4) have a: "ask_loop trimf True ''Enter your nickname: '' nickname_callback
       (stdin w) (emit [Log Warn ''Name is already taken''] w) = Done nick w1"
    by (simp add: AskNickname_def ask_def emit_def)
  note k = ask_nickname_loop_Done [OF a]
  from k assms(5) obtain c where c: "conn w1 = Some c" by (auto simp: emit_def)
  have w: "written (trace w1) = written (trace w)"
    using k by (simp add: emit_def written_append)
  let ?w2 = "w1\<lparr>cfg := (cfg w1)\<lparr>Nickname := nick\<rparr>\<rparr>"
  from c have c2: "conn ?w2 = Some c" by simp
  have l: "LoginResponse_listener wr trimf dec resp w
      = bind_outcome (login wr ?w2) (\<lambda>e w2. Done () (log_if_error e ''Send login request'' w2))"
    using assms(1-4) by (simp add: LoginResponse_listener_def)
  show ?thesis
    unfolding l login_def WriteJSON_conn [OF c2]
    using k w by (simp add: emit_def written_append)
qed

theorem name_taken_one_login_request_witness:
  "written (trace (state_of (LoginResponse_listener wr_ok id sample_loginResp
       [''type'' \<mapsto> JNum 2, ''status'' \<mapsto> JNum 3]
       (sample_ui\<lparr>stdin := [('''', None), (''carol'', None)]\<rparr>))))
     = [JObj [(''type'', JNum 1), (''nickname'', JStr ''carol'')]]"
proof -
  let ?w = "sample_ui\<lparr>stdin := [('''', None), (''carol'', None)]\<rparr>"
  let ?resp = "[''type'' \<mapsto> JNum 2, ''status'' \<mapsto> JNum 3]"
  have 1: "?resp ''type'' = Some (JNum typeLoginResp)" by (simp add: typeLoginResp_def)
  have 2: "sample_loginResp ?resp = Inr \<lparr>loginResp_Type = 2, loginResp_Token = [], loginResp_Status = 3\<rparr>"
    by (simp add: sample_loginResp_def num_field_def str_field_def)
  have 3: "loginResp_Status \<lparr>loginResp_Type = 2, loginResp_Token = [], loginResp_Status = 3\<rparr> = statusNameAlreadyTaken"
    by (simp add: statusNameAlreadyTaken_def)
  have 4: "AskNickname id (emit [Log Warn ''Name is already taken''] ?w)
      = Done ''carol'' (state_of (AskNickname id (emit [Log Warn ''Name is already taken''] ?w)))"
    by (simp add: AskNickname_def ask_def nickname_callback_def sample_ui_def sample_bare_def
        NewHandler_def emit_def)
  have 5: "conn ?w \<noteq> None" by (simp add: sample_ui_def sample_bare_def NewHandler_def)
  have 6: "written (trace sample_ui) = []" by (simp add: sample_ui_def sample_bare_def NewHandler_def)
  show ?thesis
    using name_taken_one_login_request [where resp = ?resp and dec = sample_loginResp
        and wr = wr_ok and trimf = id and w = ?w, OF 1 2 3 4 5]
    by (simp add: 6 json_loginReq_def typeLoginReq_def)
qed

text \<open>The user types the rejected nickname again: the new request carries it.\<close>

theorem name_taken_same_nickname_counterexample:
  "written (trace (state_of (LoginResponse_listener wr_ok id sample_loginResp
       [''type'' \<mapsto> JNum 2, ''status'' \<mapsto> JNum 3] sample_ui)))
     = [json_loginReq \<lparr>loginReq_Type = typeLoginReq, loginReq_Nickname = Nickname (cfg sample_ui)\<rparr>]"
  by (simp add: LoginResponse_listener_def sample_loginResp_def num_field_def str_field_def
      typeLoginResp_def statusOk_def statusNameAlreadyTaken_def AskNickname_def ask_def
      nickname_callback_def sample_ui_def sample_bare_def NewHandler_def sample_cfg_def emit_def
      login_def WriteJSON_def wr_ok_def Wrap_def log_if_error_def Let_def)

text \<open>
  C5. The hand-off \<^verbatim>\<open>tokenCh\<close> is made with capacity 0. On an ok login response the
  listener logs and sends the token on it: with a receiver parked on the channel the send
  completes, that receiver stores the token and the listener returns; with none, the send
  parks the receive loop.
\<close>

theorem ok_token_handoff:
  assumes "resp ''type'' = Some (JNum typeLoginResp)" and "dec resp = Inr r"
    and "loginResp_Status r = statusOk" and "chan_cap (tokenCh w) = 0"
  shows "chan_cap (tokenCh (NewHandler c k ds ins)) = 0
     \<and> LoginResponse_listener wr trimf dec resp w
       = (if 0 < chan_recvq (tokenCh w)
          then Done () (emit [Log Info ''Login successful'']
                 (w\<lparr>tokenCh := (tokenCh w)\<lparr>chan_recvq := chan_recvq (tokenCh w) - 1\<rparr>,
                    token := loginResp_Token r\<rparr>))
          else Stop Blocked (emit [Log Info ''Login successful''] w))"
  using assms
  by (simp add: LoginResponse_ok send_token_def chan_send_def emit_def NewHandler_def make_chan_def)

theorem ok_token_handoff_witness:
  "LoginResponse_listener wr_ok id sample_loginResp
      [''type'' \<mapsto> JNum 2, ''status'' \<mapsto> JNum 1, ''token'' \<mapsto> JStr ''t1'']
      (sample_ui\<lparr>tokenCh := \<lparr>chan_cap = 0, chan_buf = [], chan_recvq = 1\<rparr>\<rparr>)
    = Done () (sample_ui\<lparr>tokenCh := \<lparr>chan_cap = 0, chan_buf = [], chan_recvq = 0\<rparr>,
         token := ''t1'', trace := [Log Info ''Login successful'']\<rparr>)"
proof -
  let ?resp = "[''type'' \<mapsto> JNum 2, ''status'' \<mapsto> JNum 1, ''token'' \<mapsto> JStr ''t1'']"
  let ?w = "sample_ui\<lparr>tokenCh := \<lparr>chan_cap = 0, chan_buf = [], chan_recvq = 1\<rparr>\<rparr>"
  have 1: "?resp ''type'' = Some (JNum typeLoginResp)" by (simp add: typeLoginResp_def)
  have 2: "sample_loginResp ?resp = Inr \<lparr>loginResp_Type = 2, loginResp_Token = ''t1'', loginResp_Status = 1\<rparr>"
    by (simp add: sample_loginResp_def num_field_def str_field_def)
  have 3: "loginResp_Status \<lparr>loginResp_Type = 2, loginResp_Token = ''t1'', loginResp_Status = 1\<rparr> = statusOk"
    by (simp add: statusOk_def)
  have 4: "chan_cap (tokenCh ?w) = 0" by simp
  have 5: "trace sample_ui = []" by (simp add: sample_ui_def sample_bare_def NewHandler_def)
  show ?thesis
    using ok_token_handoff [where resp = ?resp and dec = sample_loginResp and w = ?w
        and wr = wr_ok and trimf = id and c = sample_cfg and k = "None :: nat option"
        and ds = "[]" and ins = "[]", OF 1 2 3 4]
    by (simp add: emit_def 5)
qed

text \<open>An ok login response while nobody waits for a token (the startup wait is over, no
  disconnect since): the listener does not return.\<close>

theorem ok_token_no_receiver_counterexample:
  "LoginResponse_listener wr_ok id sample_loginResp
      [''type'' \<mapsto> JNum 2, ''status'' \<mapsto> JNum 1, ''token'' \<mapsto> JStr ''t1''] sample_ui
    = Stop Blocked (emit [Log Info ''Login successful''] sample_ui)"
  by (simp add: LoginResponse_listener_def sample_loginResp_def num_field_def str_field_def
      typeLoginResp_def statusOk_def send_token_def chan_send_def emit_def sample_ui_def
      sample_bare_def NewHandler_def make_chan_def)

section \<open>The online-users listener\<close>

text \<open>
  C8. An online-users response that decodes: if its status is ok, the decoded list goes
  to the online-users channel of the attached UI and nothing else happens; if not, the
  listener logs an error and no list goes to the UI.
\<close>

theorem OnlineUsers_ok_or_logged:
  assumes "resp ''type'' = Some (JNum typeOnlineUsers)" and "dec resp = Inr r"
  shows "(onlineUsers_Status r = statusOk \<and> OnlineUsersCh (ChatUI w) = Some ch \<longrightarrow>
            OnlineUsers_listener dec resp w = Done () (emit [UIOnlineUsers (onlineUsers_Users r)] w))
       \<and> (onlineUsers_Status r \<noteq> statusOk \<longrightarrow>
            OnlineUsers_listener dec resp w
              = Done () (emit [Log Error ''Get online users failed, status: ''] w)
          \<and> ui_lists (trace (state_of (OnlineUsers_listener dec resp w))) = ui_lists (trace w))"
proof -
  have "ui_lists (xs @ [Log l m]) = ui_lists xs" for xs l m
    by (induction xs rule: ui_lists.induct) simp_all
  with assms show ?thesis
    by (simp add: OnlineUsers_listener_def send_OnlineUsers_def emit_def)
qed

theorem OnlineUsers_ok_or_logged_witness:
  "OnlineUsers_listener sample_onlineUsers
      [''type'' \<mapsto> JNum 7, ''status'' \<mapsto> JNum 3, ''users'' \<mapsto> JArr []] sample_ui
     = Done () (emit [Log Error ''Get online users failed, status: ''] sample_ui)
   \<and> OnlineUsers_listener sample_onlineUsers
      [''type'' \<mapsto> JNum 7, ''status'' \<mapsto> JNum 1, ''users'' \<mapsto> JArr [JStr ''al'', JStr ''bo'']] sample_ui
     = Done () (emit [UIOnlineUsers [''al'', ''bo'']] sample_ui)"
proof -
  let ?bad = "[''type'' \<mapsto> JNum 7, ''status'' \<mapsto> JNum 3, ''users'' \<mapsto> JArr []]"
  let ?good = "[''type'' \<mapsto> JNum 7, ''status'' \<mapsto> JNum 1, ''users'' \<mapsto> JArr [JStr ''al'', JStr ''bo'']]"
  have t: "?bad ''type'' = Some (JNum typeOnlineUsers)" "?good ''type'' = Some (JNum typeOnlineUsers)"
    by (simp_all add: typeOnlineUsers_def)
  have d1: "sample_onlineUsers ?bad
      = Inr \<lparr>onlineUsers_Type = 7, onlineUsers_Status = 3, onlineUsers_Users = []\<rparr>"
    by (simp add: sample_onlineUsers_def num_field_def strs_field_def)
  have d2: "sample_onlineUsers ?good
      = Inr \<lparr>onlineUsers_Type = 7, onlineUsers_Status = 1, onlineUsers_Users = [''al'', ''bo'']\<rparr>"
    by (simp add: sample_onlineUsers_def num_field_def strs_field_def)
  have u: "OnlineUsersCh (ChatUI sample_ui) = Some 0" by (simp add: sample_ui_def)
  show ?thesis
    using OnlineUsers_ok_or_logged [where resp = ?bad and dec = sample_onlineUsers
          and w = sample_ui and ch = 0, OF t(1) d1]
      OnlineUsers_ok_or_logged [where resp = ?good and dec = sample_onlineUsers
          and w = sample_ui and ch = 0, OF t(2) d2] u
    by (simp add: statusOk_def)
qed

section \<open>Sending\<close>

lemma arm_token_receiver_conn [simp]: "conn (arm_token_receiver w) = conn w"
  by (simp add: arm_token_receiver_def emit_def split: prod.splits option.splits)





section \<open>Startup wiring\<close>

lemma registers_wire_step:
  "registers s = (registry_size (wire_step d s h) = Suc (registry_size h))"
  by (cases s) (simp_all add: registry_size_def AddOnRespListener_def AddOnDisconnectListener_def)

text \<open>
  C6. \<^verbatim>\<open>main\<close> launches the receive loop on empty listener slices. All five
  registrations come after the launch, in this order: the disconnect listener and the
  login-response listener before the login request is sent, and the chat-message, the
  post-message-response and the online-users listeners after the wait for the token.
\<close>

theorem main_wiring_order:
  "filter registers (before_listen main_steps) = []
   \<and> fold (wire_step d) (before_listen main_steps) NewRegistry = NewRegistry
   \<and> filter registers (after_listen main_steps)
       = [St_HandleOnDisconnect, St_HandleLoginResponse, St_HandleChatMsgToClient,
          St_HandlePostMessageResponse, St_HandleOnlineUsers]
   \<and> filter registers (takeWhile (\<lambda>s. s \<noteq> St_LoginAndWaitForToken) main_steps)
       = [St_HandleOnDisconnect, St_HandleLoginResponse]
   \<and> registry_size (fold (wire_step d) main_steps NewRegistry) = 5"
  by (simp add: before_listen_def after_listen_def main_steps_def registry_size_def
      NewRegistry_def AddOnRespListener_def AddOnDisconnectListener_def)

text \<open>In \<^verbatim>\<open>main\<close> the receive loop is launched first, and registrations come after
  the launch.\<close>

theorem main_registers_after_listen_counterexample:
  "\<not> registered_before_listen main_steps"
  by (simp add: registered_before_listen_def after_listen_def main_steps_def)

section \<open>Round trip of a post-message request\<close>

lemma map_of_map_filter:
  "map_of (List.map_filter (\<lambda>k. map_option (Pair k) (m k)) ks)
     = (\<lambda>k. if k \<in> set ks then m k else None)"
proof (induction ks)
  case Nil
  show ?case by (simp add: List.map_filter_simps)
next
  case (Cons a ks)
  show ?case
    by (cases "m a") (auto simp: List.map_filter_simps Cons.IH fun_eq_iff)
qed

lemma rev_map_filter: "rev (List.map_filter f xs) = List.map_filter f (rev xs)"
  by (simp add: List.map_filter_def rev_map rev_filter)

lemma decode_marshal:
  "dom m \<subseteq> set ks \<Longrightarrow> decode_envelope (marshal_envelope ks m) = Inr m"
proof -
  assume d: "dom m \<subseteq> set ks"
  have "m k = None" if "k \<notin> set ks" for k
    using d that by (auto simp: domIff)
  then have "(\<lambda>k. if k \<in> set ks then m k else None) = m"
    by (auto simp: fun_eq_iff)
  then show ?thesis
    by (simp add: decode_envelope_def marshal_envelope_def rev_map_filter map_of_map_filter)
qed

lemma valid_utf8_coerce: "valid_utf8 s \<Longrightarrow> utf8_coerce s = s"
  by (induction s rule: utf8_coerce.induct) (auto split: if_splits)

lemma rune_len_le: "rune_len s \<le> length s"
  by (cases s) auto

lemma rune_len_take:
  assumes "rune_len s \<noteq> 0"
  shows "rune_len (take (rune_len s) s @ t) = rune_len s"
proof (cases s)
  case Nil
  with assms show ?thesis by simp
next
  case (Cons b0 bs)
  with assms have k: "rune_width b0 \<noteq> 0" "rune_width b0 - 1 \<le> length bs"
    "tail_ok b0 (take (rune_width b0 - 1) bs)" "rune_len s = rune_width b0"
    by (auto split: if_splits)
  from k(1) obtain j where j: "rune_width b0 = Suc j" by (cases "rune_width b0") auto
  with k have "take (rune_len s) s @ t = b0 # (take j bs @ t)" "j \<le> length bs"
    "tail_ok b0 (take j bs)"
    by (simp_all add: Cons)
  then show ?thesis
    using k(4) j by simp
qed

lemma valid_utf8_rune_append:
  assumes "rune_len s \<noteq> 0"
  shows "valid_utf8 (take (rune_len s) s @ t) = valid_utf8 t"
proof -
  let ?r = "take (rune_len s) s"
  have l: "length ?r = rune_len s" using rune_len_le [of s] by simp
  from assms obtain b bs where r: "?r @ t = b # bs"
    by (cases "?r @ t") (use l in auto)
  have "rune_len (?r @ t) = rune_len s" using assms by (rule rune_len_take)
  then have "valid_utf8 (?r @ t) = valid_utf8 (drop (rune_len s) (?r @ t))"
    using assms unfolding r by simp
  also have "drop (rune_len s) (?r @ t) = t" using l by simp
  finally show ?thesis .
qed

lemma valid_utf8_utf8_coerce: "valid_utf8 (utf8_coerce s)"
proof (induction s rule: utf8_coerce.induct)
  case 1
  show ?case by simp
next
  case (2 b bs)
  show ?case
  proof (cases "rune_len (b # bs) = 0")
    case True
    with 2 have "valid_utf8 (utf8_coerce bs)" by simp
    then have "valid_utf8 ([CHR 0xEF, CHR 0xBF, CHR 0xBD] @ utf8_coerce bs)"
      by (simp add: byte_in_def rune_width_def tail_ok_def second_ok_def)
    with True show ?thesis by simp
  next
    case False
    with 2 have "valid_utf8 (utf8_coerce (drop (rune_len (b # bs)) (b # bs)))" by simp
    with False show ?thesis
      using valid_utf8_rune_append [of "b # bs"] by simp
  qed
qed

lemma utf8_coerce_idem: "utf8_coerce (utf8_coerce s) = utf8_coerce s"
  by (simp add: valid_utf8_coerce valid_utf8_utf8_coerce)

lemma wire_idem: "wire (wire v) = wire v"
  by (induction v) (auto simp: utf8_coerce_idem)

lemma wire_marshal_fixed:
  assumes "\<And>k. k \<in> set ks \<Longrightarrow> utf8_coerce k = k"
    and "\<And>k v. m k = Some v \<Longrightarrow> wire v = v"
  shows "wire (marshal_envelope ks m) = marshal_envelope ks m"
proof -
  let ?xs = "List.map_filter (\<lambda>k. map_option (Pair k) (m k)) (sort (remdups ks))"
  have "map_prod utf8_coerce wire kv = kv" if "kv \<in> set ?xs" for kv
  proof -
    from that obtain k where "k \<in> set ks" and "map_option (Pair k) (m k) = Some kv"
      by (auto simp: List.map_filter_def)
    then obtain v where "m k = Some v" "kv = (k, v)" by (cases "m k") auto
    with assms \<open>k \<in> set ks\<close> show ?thesis by simp
  qed
  then have "map (map_prod utf8_coerce wire) ?xs = ?xs"
    by (simp add: map_idI)
  then show ?thesis by (simp add: marshal_envelope_def)
qed

text \<open>For every object: write it, read it as an envelope, write the envelope, read
  again: the second envelope is the first.\<close>

lemma reencode_decoded:
  "decode_envelope (wire (marshal_envelope (map (\<lambda>kv. utf8_coerce (fst kv)) kvs)
       (map_of (rev (map (map_prod utf8_coerce wire) kvs)))))
     = decode_envelope (wire (JObj kvs))"
proof -
  let ?ks = "map (\<lambda>kv. utf8_coerce (fst kv)) kvs"
  let ?m = "map_of (rev (map (map_prod utf8_coerce wire) kvs))"
  have 1: "utf8_coerce k = k" if "k \<in> set ?ks" for k
    using that by (auto simp: utf8_coerce_idem)
  have 2: "wire v = v" if "?m k = Some v" for k v
  proof -
    from that have "(k, v) \<in> set (map (map_prod utf8_coerce wire) kvs)"
      by (auto dest: map_of_SomeD)
    then show ?thesis by (auto simp: wire_idem)
  qed
  have 3: "dom ?m \<subseteq> set ?ks"
    by (auto simp: dom_map_of_conv_image_fst image_iff) force
  have "wire (marshal_envelope ?ks ?m) = marshal_envelope ?ks ?m"
    using 1 2 by (rule wire_marshal_fixed)
  with decode_marshal [OF 3] show ?thesis
    by (simp add: decode_envelope_def)
qed




section \<open>Scenarios\<close>

lemma OnDisconnect_nil_channel:
  "OnlineUsersCh (ChatUI w) = None \<Longrightarrow>
   OnDisconnect_listener wr err w
     = Stop Blocked (emit [Log Error ''Lost connection to server Retrying in 5 seconds.''] w)"
  by (simp add: OnDisconnect_listener_def lo_IsEmpty_def send_OnlineUsers_def emit_def)

text \<open>A disconnect while \<^verbatim>\<open>main\<close> waits for the first token, through the receive
  loop as \<^verbatim>\<open>main\<close> has wired it by then: one close error from the read, and the loop
  is parked for good.\<close>

lemma disconnect_during_startup_halts_loop:
  "Listen (\<lambda>w. conn w \<noteq> None)
      (fold (wire_step d) (takeWhile (\<lambda>s. s \<noteq> St_NewChat) main_steps) NewRegistry)
      ((Some (CloseError 1006 []), Map.empty) # rs)
      (state_of (LoginAndWaitForToken (dep_wr d) (NewHandler c (Some k) ds ins)))
   = Halted Blocked
       (emit [Log Error ''Lost connection to server Retrying in 5 seconds.'']
          (state_of (LoginAndWaitForToken (dep_wr d) (NewHandler c (Some k) ds ins))))"
proof -
  let ?w = "state_of (LoginAndWaitForToken (dep_wr d) (NewHandler c (Some k) ds ins))"
  have u: "OnlineUsersCh (ChatUI ?w) = None" and k: "conn ?w \<noteq> None"
    by (simp_all add: LoginAndWaitForToken_def login_def WriteJSON_def NewHandler_def
        zero_Chat_def emit_def log_if_error_def arm_token_receiver_def chan_recv_def
        make_chan_def Wrap_def split: prod.splits option.splits)
  have "OnDisconnect_listener (dep_wr d) (CloseError 1006 []) ?w
      = Stop Blocked (emit [Log Error ''Lost connection to server Retrying in 5 seconds.''] ?w)"
    using u by (rule OnDisconnect_nil_channel)
  then show ?thesis
    using k
    by (simp add: main_steps_def NewRegistry_def AddOnRespListener_def
        AddOnDisconnectListener_def Listen_body_def)
qed

text \<open>The startup handshake: \<^verbatim>\<open>LoginAndWaitForToken\<close> parks the caller on the
  hand-off, and the ok login response that follows gives it the token.\<close>

lemma startup_handshake:
  assumes "resp ''type'' = Some (JNum typeLoginResp)" and "dec resp = Inr r"
    and "loginResp_Status r = statusOk"
  shows "token (state_of (LoginResponse_listener wr trimf dec resp
            (state_of (LoginAndWaitForToken wr (NewHandler c (Some k) ds ins)))))
          = loginResp_Token r
       \<and> returned (LoginResponse_listener wr trimf dec resp
            (state_of (LoginAndWaitForToken wr (NewHandler c (Some k) ds ins))))"
  using assms
  by (simp add: LoginResponse_ok LoginAndWaitForToken_def login_def WriteJSON_def NewHandler_def
        emit_def log_if_error_def arm_token_receiver_def chan_recv_def send_token_def
        chan_send_def make_chan_def Wrap_def split: prod.splits option.splits)

end
